theory Spec2Isabelle
  imports Complex_Main "HOL-Library.Word"
begin

section \<open>Values and errors\<close>

text \<open>
  The calibration script \<^verbatim>\<open>calibration/calibrate.py\<close> computes with numpy double precision
  numbers. The embedding takes finite numbers as \<^typ>\<open>real\<close> (rounding is abstracted away) and
  writes out the one place where numpy leaves the reals: a division by zero does not raise, it
  gives an infinity (or NaN for \<open>0 / 0\<close>) together with a warning. Exceptions of the source are
  values of the type \<open>error\<close>, and a computation that may raise returns \<open>error + 'a\<close>.
\<close>

datatype error = ValueError | IndexError | TypeError | OSError | OverflowError | SlmError

datatype xreal = Fin real | PInf | NInf | NaN

definition bindE :: "error + 'a \<Rightarrow> ('a \<Rightarrow> error + 'b) \<Rightarrow> error + 'b" where
  "bindE r k = (case r of Inl e \<Rightarrow> Inl e | Inr v \<Rightarrow> k v)"

definition np_div :: "real \<Rightarrow> real \<Rightarrow> xreal" where
  \<comment> \<open>\<^verbatim>\<open>a / b\<close> on numpy floats; a zero divisor is taken as \<open>+0.0\<close>\<close>
  "np_div a b =
     (if b \<noteq> 0 then Fin (a / b)
      else if 0 < a then PInf
      else if a < 0 then NInf
      else NaN)"

fun xscale :: "real \<Rightarrow> xreal \<Rightarrow> xreal" where
  \<comment> \<open>\<^verbatim>\<open>k * v\<close> for a finite \<open>k\<close>\<close>
  "xscale k (Fin v) = Fin (k * v)"
| "xscale k PInf = (if 0 < k then PInf else if k < 0 then NInf else NaN)"
| "xscale k NInf = (if 0 < k then NInf else if k < 0 then PInf else NaN)"
| "xscale k NaN = NaN"

fun xminus :: "xreal \<Rightarrow> real \<Rightarrow> xreal" where
  \<comment> \<open>\<^verbatim>\<open>v - d\<close> for a finite \<open>d\<close>\<close>
  "xminus (Fin v) d = Fin (v - d)"
| "xminus PInf d = PInf"
| "xminus NInf d = NInf"
| "xminus NaN d = NaN"

fun xle :: "xreal \<Rightarrow> xreal \<Rightarrow> bool" where
  \<comment> \<open>\<^verbatim>\<open>u <= v\<close> on floats: every comparison with NaN is false\<close>
  "xle NaN v = False"
| "xle u NaN = False"
| "xle NInf v = True"
| "xle u PInf = True"
| "xle (Fin a) (Fin b) = (a \<le> b)"
| "xle PInf v = False"
| "xle u NInf = False"

section \<open>numpy reductions and indexing\<close>

fun argmax_from :: "real list \<Rightarrow> nat \<Rightarrow> nat \<Rightarrow> real \<Rightarrow> nat" where
  \<comment> \<open>scan from index \<open>i\<close>, remembering the first position of the largest value so far\<close>
  "argmax_from [] i best bv = best"
| "argmax_from (y # ys) i best bv =
     (if bv < y then argmax_from ys (Suc i) i y else argmax_from ys (Suc i) best bv)"

fun argmin_from :: "real list \<Rightarrow> nat \<Rightarrow> nat \<Rightarrow> real \<Rightarrow> nat" where
  "argmin_from [] i best bv = best"
| "argmin_from (y # ys) i best bv =
     (if y < bv then argmin_from ys (Suc i) i y else argmin_from ys (Suc i) best bv)"

fun np_argmax :: "real list \<Rightarrow> error + nat" where
  \<comment> \<open>\<^verbatim>\<open>np.argmax\<close>: first index of the maximum; ValueError on an empty array\<close>
  "np_argmax [] = Inl ValueError"
| "np_argmax (y # ys) = Inr (argmax_from ys 1 0 y)"

fun np_argmin :: "real list \<Rightarrow> error + nat" where
  "np_argmin [] = Inl ValueError"
| "np_argmin (y # ys) = Inr (argmin_from ys 1 0 y)"

fun np_max :: "real list \<Rightarrow> error + real" where
  "np_max [] = Inl ValueError"
| "np_max (y # ys) = Inr (fold max ys y)"

fun np_min :: "real list \<Rightarrow> error + real" where
  "np_min [] = Inl ValueError"
| "np_min (y # ys) = Inr (fold min ys y)"

definition np_index :: "'a list \<Rightarrow> nat \<Rightarrow> error + 'a" where
  \<comment> \<open>\<^verbatim>\<open>xs[i]\<close> for a non-negative index\<close>
  "np_index xs i = (if i < length xs then Inr (xs ! i) else Inl IndexError)"

section \<open>Model library\<close>

definition linear_cos_square :: "real \<Rightarrow> real \<Rightarrow> real \<Rightarrow> real \<Rightarrow> real \<Rightarrow> real" where
  "linear_cos_square x x0 a b c = a * cos (b * (x - x0)) ^ 2 + c"

definition nonlinear1_cos_square ::
  "real \<Rightarrow> real \<Rightarrow> real \<Rightarrow> real \<Rightarrow> real \<Rightarrow> real \<Rightarrow> real" where
  "nonlinear1_cos_square x x0 a b c d = a * (cos (d * (x - x0) ^ 2 + b * (x - x0)) ^ 2) + c"

definition nonlinear2_cos_square ::
  "real \<Rightarrow> real \<Rightarrow> real \<Rightarrow> real \<Rightarrow> real \<Rightarrow> real \<Rightarrow> real \<Rightarrow> real" where
  "nonlinear2_cos_square x x0 a b c d e =
     a * cos (e * (x - x0) ^ 3 + d * (x - x0) ^ 2 + b * (x - x0)) ^ 2 + c"

text \<open>
  The function object handed to the solver, and the call \<^verbatim>\<open>f(x, *p)\<close> that unpacks a
  parameter vector into the positional parameters: Python raises TypeError when the vector does
  not have as many entries as the function has parameters after \<open>x\<close>.
\<close>

datatype model = Linear | FirstOrder | SecondOrder

fun star_call :: "model \<Rightarrow> real \<Rightarrow> real list \<Rightarrow> error + real" where
  "star_call Linear x [x0, a, b, c] = Inr (linear_cos_square x x0 a b c)"
| "star_call FirstOrder x [x0, a, b, c, d] = Inr (nonlinear1_cos_square x x0 a b c d)"
| "star_call SecondOrder x [x0, a, b, c, d, e] = Inr (nonlinear2_cos_square x x0 a b c d e)"
| "star_call m x p = Inl TypeError"

fun star_call_array :: "model \<Rightarrow> real list \<Rightarrow> real list \<Rightarrow> error + real list" where
  \<comment> \<open>the same call on an array of greyscales: numpy evaluates it elementwise\<close>
  "star_call_array Linear xs [x0, a, b, c] = Inr (map (\<lambda>x. linear_cos_square x x0 a b c) xs)"
| "star_call_array FirstOrder xs [x0, a, b, c, d] =
     Inr (map (\<lambda>x. nonlinear1_cos_square x x0 a b c d) xs)"
| "star_call_array SecondOrder xs [x0, a, b, c, d, e] =
     Inr (map (\<lambda>x. nonlinear2_cos_square x x0 a b c d e) xs)"
| "star_call_array m xs p = Inl TypeError"

text \<open>
  The reference definitions, in the words of the specification: a model maps a greyscale and a
  parameter vector of length 4, 5 or 6 to a predicted intensity.
\<close>

fun spec_model :: "model \<Rightarrow> real \<Rightarrow> real list \<Rightarrow> real option" where
  "spec_model Linear x p =
     (if length p = 4 then Some (p ! 1 * (cos (p ! 2 * (x - p ! 0)))\<^sup>2 + p ! 3) else None)"
| "spec_model FirstOrder x p =
     (if length p = 5
      then Some (p ! 1 * (cos (p ! 4 * (x - p ! 0)\<^sup>2 + p ! 2 * (x - p ! 0)))\<^sup>2 + p ! 3)
      else None)"
| "spec_model SecondOrder x p =
     (if length p = 6
      then Some (p ! 1 * (cos (p ! 5 * (x - p ! 0) ^ 3 + p ! 4 * (x - p ! 0)\<^sup>2
                   + p ! 2 * (x - p ! 0)))\<^sup>2 + p ! 3)
      else None)"

definition model_arity :: "model \<Rightarrow> nat" where
  "model_arity m = (case m of Linear \<Rightarrow> 4 | FirstOrder \<Rightarrow> 5 | SecondOrder \<Rightarrow> 6)"

section \<open>Reading a dataset\<close>

text \<open>
  A dataset is the content of a calibration file: its rows \<open>(greyscale, intensity)\<close>. The script
  reads it with \<^verbatim>\<open>grey, intensity = np.loadtxt(path, dtype=float, delimiter='\t', unpack=True)\<close>.
  For two or more rows this binds two one-dimensional arrays, the columns of the file. For a
  single row numpy squeezes the result to the shape \<open>(2,)\<close>, so that the unpacking binds two
  scalars of type \<^verbatim>\<open>numpy.float64\<close>; for a file without rows the result has shape \<open>(0,)\<close> and the
  unpacking raises ValueError. A value bound by the script is therefore a scalar or an array.
\<close>

type_synonym dataset = "(real \<times> real) list"

datatype ndarray = Scalar real | Array "real list"

definition grey_of :: "dataset \<Rightarrow> real list" where
  "grey_of d = map fst d"

definition intensity_of :: "dataset \<Rightarrow> real list" where
  "intensity_of d = map snd d"

fun loadtxt_unpack :: "dataset \<Rightarrow> error + ndarray \<times> ndarray" where
  "loadtxt_unpack [] = Inl ValueError"
| "loadtxt_unpack [(g, y)] = Inr (Scalar g, Scalar y)"
| "loadtxt_unpack (r1 # r2 # rs) =
     Inr (Array (grey_of (r1 # r2 # rs)), Array (intensity_of (r1 # r2 # rs)))"

fun np_slice_to :: "ndarray \<Rightarrow> nat \<Rightarrow> error + real list" where
  \<comment> \<open>\<^verbatim>\<open>a[:n]\<close>: a scalar cannot be indexed\<close>
  "np_slice_to (Scalar v) n = Inl IndexError"
| "np_slice_to (Array xs) n = Inr (take n xs)"

fun np_getitem :: "ndarray \<Rightarrow> nat \<Rightarrow> error + real" where
  \<comment> \<open>\<^verbatim>\<open>a[i]\<close>\<close>
  "np_getitem (Scalar v) i = Inl IndexError"
| "np_getitem (Array xs) i = np_index xs i"

fun np_values :: "ndarray \<Rightarrow> real list" where
  \<comment> \<open>the elements a reduction such as \<^verbatim>\<open>np.max\<close> or \<^verbatim>\<open>np.argmin\<close> runs over\<close>
  "np_values (Scalar v) = [v]"
| "np_values (Array xs) = xs"

fun np_scale :: "real \<Rightarrow> ndarray \<Rightarrow> ndarray" where
  \<comment> \<open>\<^verbatim>\<open>k * a\<close>, elementwise\<close>
  "np_scale k (Scalar v) = Scalar (k * v)"
| "np_scale k (Array xs) = Array (map (\<lambda>v. k * v) xs)"

section \<open>Stage 0: guess and bounds from the raw dataset\<close>

definition REL_Y_ERR :: real where
  "REL_Y_ERR = 12 / 10000"

definition EPS :: real where
  "EPS = 1 / 10 ^ 12"

record guess_bounds =
  p_guess :: "xreal list"
  lower :: "xreal list"
  upper :: "xreal list"

text \<open>
  Lines 85 to 96 of the script, in the order in which they are evaluated. The first step is the
  slice \<^verbatim>\<open>intensity[:30]\<close>. The expression \<^verbatim>\<open>grey[np.argmax(intensity[:30])]\<close> occurs a second time
  in the frequency guess, with the same value.
\<close>

definition stage0_guess :: "ndarray \<Rightarrow> ndarray \<Rightarrow> error + guess_bounds" where
  "stage0_guess grey intensity =
     bindE (np_slice_to intensity 30) (\<lambda>first30.
     bindE (np_argmax first30) (\<lambda>ipk.
     bindE (np_getitem grey ipk) (\<lambda>ps_guess.
     bindE (np_max (np_values intensity)) (\<lambda>scale_guess.
     bindE (np_argmin (np_values intensity)) (\<lambda>imin.
     bindE (np_getitem grey imin) (\<lambda>gmin.
     bindE (np_min (np_values intensity)) (\<lambda>i_shift.
       let freq_guess = np_div pi (2 * \<bar>ps_guess - gmin\<bar>);
           ps_lower = ps_guess - 50; ps_upper = ps_guess + 50;
           scale_lower = scale_guess - 10 * i_shift;
           scale_upper = scale_guess + 10 * i_shift;
           freq_lower = pi / 1023;
           freq_upper = xminus (xscale 2 freq_guess) (pi / 1023);
           is_lower = 0; is_upper = 10 * i_shift
       in Inr \<lparr> p_guess = [Fin ps_guess, Fin scale_guess, freq_guess, Fin i_shift],
                lower = [Fin ps_lower, Fin scale_lower, Fin freq_lower, Fin is_lower],
                upper = [Fin ps_upper, Fin scale_upper, freq_upper, Fin is_upper] \<rparr>)))))))"

definition stage0_from_rows :: "dataset \<Rightarrow> error + guess_bounds" where
  \<comment> \<open>lines 83 to 96: the file is unpacked, then the guess and the bounds are built\<close>
  "stage0_from_rows d =
     bindE (loadtxt_unpack d) (\<lambda>(grey, intensity). stage0_guess grey intensity)"

section \<open>The fitting script\<close>

text \<open>
  The solver \<^verbatim>\<open>scipy.optimize.curve_fit\<close> is a library outside the repository: it is a
  parameter of the embedding, a function from the arguments of a call to the fitted parameters
  and their covariance, or to the exception it raises. The arguments of a call are a record, and
  the script's state keeps the calls it made, what it printed and drew, the three result arrays
  it allocates before the loop, and the exception that stopped it, if any.
\<close>

record fit_call =
  fc_model :: model
  xdata :: ndarray
  ydata :: ndarray
  p0 :: "xreal list"
  sigma :: ndarray
  absolute_sigma :: bool
  bounds :: "xreal list \<times> xreal list"

type_synonym solver = "fit_call \<Rightarrow> error + (real list \<times> real list list)"

definition fit_args :: "model \<Rightarrow> ndarray \<Rightarrow> ndarray \<Rightarrow> guess_bounds \<Rightarrow> fit_call" where
  \<comment> \<open>the arguments of \<^verbatim>\<open>sp.curve_fit(f, grey, intensity, p0=..., sigma=REL_Y_ERR*intensity,
      absolute_sigma=True, bounds=(lower, upper))\<close>\<close>
  "fit_args m grey intensity gb =
     \<lparr> fc_model = m, xdata = grey, ydata = intensity, p0 = p_guess gb,
       sigma = np_scale REL_Y_ERR intensity, absolute_sigma = True,
       bounds = (lower gb, upper gb) \<rparr>"

record script_state =
  fit_calls :: "fit_call list"
  printed :: "real list list"
  errorbars :: "(ndarray \<times> ndarray \<times> ndarray) list"
  plotted :: "real list list"
  nonlinearity1 :: "real list"
  nonlinearity2 :: "real list"
  err :: "real list list"
  raised :: "error option"

definition grey_curve :: "real list" where
  \<comment> \<open>\<^verbatim>\<open>np.linspace(0, 1023, 1000)\<close>\<close>
  "grey_curve = map (\<lambda>k. 1023 * real k / 999) [0..<1000]"

definition plt_errorbar ::
  "ndarray \<Rightarrow> ndarray \<Rightarrow> ndarray \<Rightarrow> error + (ndarray \<times> ndarray \<times> ndarray)" where
  \<comment> \<open>\<^verbatim>\<open>errorbar(x, y, yerr=...)\<close>: matplotlib raises ValueError when an error bar is negative\<close>
  "plt_errorbar x y yerr =
     (if list_ex (\<lambda>v. v < 0) (np_values yerr) then Inl ValueError else Inr (x, y, yerr))"

definition initial_state :: script_state where
  \<comment> \<open>\<^verbatim>\<open>nonlinearity1 = np.zeros(5)\<close>, \<^verbatim>\<open>nonlinearity2 = np.zeros(5)\<close>, \<^verbatim>\<open>err = np.zeros([5, 2])\<close>\<close>
  "initial_state =
     \<lparr> fit_calls = [], printed = [], errorbars = [], plotted = [],
       nonlinearity1 = replicate 5 0, nonlinearity2 = replicate 5 0,
       err = replicate 5 [0, 0], raised = None \<rparr>"

definition loop_body ::
  "solver \<Rightarrow> (nat \<Rightarrow> error + dataset) \<Rightarrow> nat \<Rightarrow> script_state \<Rightarrow> script_state" where
  \<comment> \<open>one pass of the loop for the path index \<open>i\<close>; \<open>loadtxt i\<close> is the rows of the file
      \<^verbatim>\<open>data_paths[i]\<close>, or the exception reading it raises. The covariance the solver returns
      is bound to \<^verbatim>\<open>_\<close> and not used; the three result arrays are not assigned to.\<close>
  "loop_body curve_fit loadtxt i s =
     (case loadtxt i of
        Inl e \<Rightarrow> s\<lparr>raised := Some e\<rparr>
      | Inr d \<Rightarrow>
          (case loadtxt_unpack d of
             Inl e \<Rightarrow> s\<lparr>raised := Some e\<rparr>
           | Inr (grey, intensity) \<Rightarrow>
               (case stage0_guess grey intensity of
                  Inl e \<Rightarrow> s\<lparr>raised := Some e\<rparr>
                | Inr gb \<Rightarrow>
                    let c = fit_args Linear grey intensity gb;
                        s1 = s\<lparr>fit_calls := fit_calls s @ [c]\<rparr>
                    in (case curve_fit c of
                          Inl e \<Rightarrow> s1\<lparr>raised := Some e\<rparr>
                        | Inr (p_optimize0, cov) \<Rightarrow>
                            let s2 = s1\<lparr>printed := printed s1 @ [p_optimize0]\<rparr>
                            in (case star_call_array Linear grey_curve p_optimize0 of
                                  Inl e \<Rightarrow> s2\<lparr>raised := Some e\<rparr>
                                | Inr curve \<Rightarrow>
                                    (case plt_errorbar grey intensity
                                            (np_scale REL_Y_ERR intensity) of
                                       Inl e \<Rightarrow> s2\<lparr>raised := Some e\<rparr>
                                     | Inr eb \<Rightarrow>
                                         s2\<lparr>errorbars := errorbars s2 @ [eb],
                                            plotted := plotted s2 @ [curve]\<rparr>))))))"

definition calibrate :: "solver \<Rightarrow> (nat \<Rightarrow> error + dataset) \<Rightarrow> script_state" where
  \<comment> \<open>\<^verbatim>\<open>for i in range(1)\<close>: an exception ends the script\<close>
  "calibrate curve_fit loadtxt =
     fold (\<lambda>i s. if raised s = None then loop_body curve_fit loadtxt i s else s) [0..<1]
       initial_state"

section \<open>Reference definitions from the specification\<close>

text \<open>
  What the specification describes, in its words, for comparison with the script above. The
  script has no construction for a stage after stage 0 and no aggregation: the lines that would
  hold them are comments. The definitions of this section are therefore not taken from code that
  runs; they state the specification's cascade, over the reals.
\<close>

definition spec_argmax :: "real list \<Rightarrow> nat" where
  \<comment> \<open>the index of the maximum: the first position holding the largest value\<close>
  "spec_argmax xs = length (takeWhile (\<lambda>y. y \<noteq> Max (set xs)) xs)"

definition spec_argmin :: "real list \<Rightarrow> nat" where
  "spec_argmin xs = length (takeWhile (\<lambda>y. y \<noteq> Min (set xs)) xs)"

definition bounds_ok :: "guess_bounds \<Rightarrow> bool" where
  \<comment> \<open>the bound box invariant: lower \<open>\<le>\<close> guess \<open>\<le>\<close> upper for every parameter\<close>
  "bounds_ok gb = (list_all2 xle (lower gb) (p_guess gb) \<and> list_all2 xle (p_guess gb) (upper gb))"

definition entry_ok :: "guess_bounds \<Rightarrow> nat \<Rightarrow> bool" where
  \<comment> \<open>the same invariant for the parameter at one position\<close>
  "entry_ok gb k = (xle (lower gb ! k) (p_guess gb ! k) \<and> xle (p_guess gb ! k) (upper gb ! k))"

definition spec_next_stage_guess :: "real list \<Rightarrow> guess_bounds" where
  \<comment> \<open>the specification's construction for a stage after stage 0: the guess is \<open>p\<close> extended
      with 0, the bounds are \<open>p - \<epsilon>\<close> and \<open>p + \<epsilon>\<close> extended with \<open>-\<infinity>\<close> and \<open>+\<infinity>\<close>\<close>
  "spec_next_stage_guess p =
     \<lparr> p_guess = map Fin p @ [Fin 0],
       lower = map (\<lambda>v. Fin (v - EPS)) p @ [NInf],
       upper = map (\<lambda>v. Fin (v + EPS)) p @ [PInf] \<rparr>"

definition spec_cascade_calls :: "solver \<Rightarrow> dataset \<Rightarrow> fit_call list" where
  \<comment> \<open>the fits of the three-stage cascade for one wavelength: linear, then on success first
      order seeded by the stage-0 result, then second order seeded by the stage-1 result\<close>
  "spec_cascade_calls curve_fit d =
     (case loadtxt_unpack d of
        Inl e \<Rightarrow> []
      | Inr (grey, intensity) \<Rightarrow>
          (case stage0_guess grey intensity of
             Inl e \<Rightarrow> []
           | Inr gb0 \<Rightarrow>
               let c0 = fit_args Linear grey intensity gb0
               in (case curve_fit c0 of
                     Inl e \<Rightarrow> [c0]
                   | Inr (popt0, cov0) \<Rightarrow>
                       let c1 = fit_args FirstOrder grey intensity (spec_next_stage_guess popt0)
                       in (case curve_fit c1 of
                             Inl e \<Rightarrow> [c0, c1]
                           | Inr (popt1, cov1) \<Rightarrow>
                               [c0, c1, fit_args SecondOrder grey intensity
                                          (spec_next_stage_guess popt1)]))))"

definition spec_pipeline_calls :: "solver \<Rightarrow> dataset list \<Rightarrow> fit_call list" where
  \<comment> \<open>the cascade, run for every supplied wavelength in turn\<close>
  "spec_pipeline_calls curve_fit ds = concat (map (spec_cascade_calls curve_fit) ds)"

definition spec_final_fit :: "solver \<Rightarrow> dataset \<Rightarrow> (real list \<times> real list list) option" where
  \<comment> \<open>the parameters and covariance of the final, second-order fit of the cascade for one
      wavelength, when every stage succeeds\<close>
  "spec_final_fit curve_fit d =
     (case spec_cascade_calls curve_fit d of
        [c0, c1, c2] \<Rightarrow> (case curve_fit c2 of Inl e \<Rightarrow> None | Inr r \<Rightarrow> Some r)
      | _ \<Rightarrow> None)"

record spec_ratios =
  ratio1 :: real
  ratio2 :: real
  ratio1_stderr :: real
  ratio2_stderr :: real

definition spec_nonlinearity :: "real list \<Rightarrow> real list list \<Rightarrow> spec_ratios" where
  \<comment> \<open>the specification's aggregation for one wavelength, from the final parameters and the
      diagonal of the final covariance matrix\<close>
  "spec_nonlinearity param cov =
     \<lparr> ratio1 = param ! 4 / param ! 2,
       ratio2 = param ! 5 / param ! 2,
       ratio1_stderr = sqrt (cov ! 2 ! 2 + cov ! 4 ! 4),
       ratio2_stderr = sqrt (cov ! 2 ! 2 + cov ! 5 ! 5) \<rparr>"

section \<open>Device layer: the phase register\<close>

text \<open>
  \<^verbatim>\<open>slm_code/slm.py\<close> converts between the \<open>Phase\<close> parameter, a Python float, and the
  device's integer phase register. Whether the conversion round-trips is decided by the rounding
  of binary64 arithmetic, so here a float is embedded exactly: a finite double is \<open>m \<cdot> 2\<^sup>e\<close>
  with an integer mantissa of at most 53 bits, and every operation rounds the exact result to
  the nearest double, ties to even. Only non-negative values occur (the spin box is bounded by
  0.00 and 9.99, the register is unsigned).
\<close>

datatype b64 = B64 int int | B64Inf

function bit_length :: "int \<Rightarrow> nat" where
  \<comment> \<open>the number of binary digits of a positive integer, as \<^verbatim>\<open>int.bit_length\<close>\<close>
  "bit_length n = (if n \<le> 0 then 0 else Suc (bit_length (n div 2)))"
  by pat_completeness auto
termination
  by (relation "measure nat") auto

declare bit_length.simps [simp del]

definition round_half_even :: "int \<Rightarrow> int \<Rightarrow> int" where
  \<comment> \<open>the integer nearest to \<open>N / D\<close> for \<open>0 \<le> N\<close> and \<open>0 < D\<close>, ties to the even one\<close>
  "round_half_even N D =
     (let q = N div D; r = N mod D
      in if 2 * r < D then q else if D < 2 * r then q + 1 else if even q then q else q + 1)"

definition b64_of_ratio :: "int \<Rightarrow> int \<Rightarrow> b64" where
  \<comment> \<open>the double nearest to \<open>n / d\<close> for \<open>0 \<le> n\<close> and \<open>0 < d\<close>: the exponent is that of the
      53-bit mantissa (not below the subnormal exponent -1074), a mantissa rounded up to
      \<open>2\<^sup>5\<^sup>3\<close> is renormalised, and a result beyond the largest double is infinite\<close>
  "b64_of_ratio n d =
     (if n = 0 then B64 0 0
      else
        let k = int (bit_length n) - int (bit_length d);
            lg = (if (if 0 \<le> k then d * 2 ^ nat k \<le> n else d \<le> n * 2 ^ nat (- k))
                  then k else k - 1);
            e = max (lg - 52) (- 1074);
            m = (if 0 \<le> e then round_half_even n (d * 2 ^ nat e)
                 else round_half_even (n * 2 ^ nat (- e)) d);
            m' = (if m = 2 ^ 53 then 2 ^ 52 else m);
            e' = (if m = 2 ^ 53 then e + 1 else e)
        in if m' = 0 then B64 0 0 else if 971 < e' then B64Inf else B64 m' e')"

definition b64_of_int :: "int \<Rightarrow> b64" where
  "b64_of_int i = b64_of_ratio i 1"

fun b64_mul :: "b64 \<Rightarrow> b64 \<Rightarrow> b64" where
  \<comment> \<open>\<^verbatim>\<open>x * y\<close>: the exact product, rounded once\<close>
  "b64_mul (B64 m1 e1) (B64 m2 e2) =
     (if 0 \<le> e1 + e2 then b64_of_ratio (m1 * m2 * 2 ^ nat (e1 + e2)) 1
      else b64_of_ratio (m1 * m2) (2 ^ nat (- (e1 + e2))))"
| "b64_mul B64Inf (B64 m e) = B64Inf"
| "b64_mul (B64 m e) B64Inf = B64Inf"
| "b64_mul B64Inf B64Inf = B64Inf"

fun py_int :: "b64 \<Rightarrow> error + int" where
  \<comment> \<open>\<^verbatim>\<open>int(x)\<close>: truncation towards zero; OverflowError on an infinity\<close>
  "py_int (B64 m e) = Inr (if 0 \<le> e then m * 2 ^ nat e else m div 2 ^ nat (- e))"
| "py_int B64Inf = Inl OverflowError"

text \<open>
  The piece's state: the flags the ensurers test, the two parameters of the phase popup and the
  device's two registers. The vendor module \<^verbatim>\<open>_slm_win\<close> is not part of the sources; the
  registers keep what \<^verbatim>\<open>SLM_Ctrl_WriteWL\<close> wrote (as 32-bit \<open>DWORD\<close>s) and
  \<^verbatim>\<open>SLM_Ctrl_ReadWL\<close> returns them, and \<open>device_ok\<close> says that the vendor calls answer
  \<^verbatim>\<open>SLM_OK\<close>.
\<close>

record slm_piece =
  debug :: bool
  slm_open :: bool
  display_open :: bool
  device_ok :: bool
  Wavelength :: int
  Phase :: b64
  reg_wavelength :: "32 word"
  reg_phase :: "32 word"

definition ensure_slm_open :: "slm_piece \<Rightarrow> error + unit" where
  "ensure_slm_open s = (if \<not> debug s \<and> \<not> slm_open s then Inl SlmError else Inr ())"

definition ensure_slm_ready :: "slm_piece \<Rightarrow> error + unit" where
  "ensure_slm_ready s = (if \<not> debug s \<and> \<not> device_ok s then Inl SlmError else Inr ())"

definition ensure_display_open :: "slm_piece \<Rightarrow> error + unit" where
  "ensure_display_open s = (if \<not> debug s \<and> \<not> display_open s then Inl SlmError else Inr ())"

definition read_phase_registers :: "slm_piece \<Rightarrow> error + slm_piece" where
  \<comment> \<open>the read of \<^verbatim>\<open>SLM_Ctrl_ReadWL\<close> and the two \<^verbatim>\<open>set_value\<close> calls, the same lines in
      Toggle Open and in Phase Settings: \<^verbatim>\<open>float(phase.value / 100)\<close>\<close>
  "read_phase_registers s =
     (if \<not> device_ok s then Inl SlmError
      else Inr (s\<lparr>Wavelength := uint (reg_wavelength s),
                  Phase := b64_of_ratio (uint (reg_phase s)) 100\<rparr>))"

definition phase_settings :: "slm_piece \<Rightarrow> error + slm_piece" where
  "phase_settings s =
     bindE (ensure_slm_open s) (\<lambda>_.
     bindE (ensure_slm_ready s) (\<lambda>_.
     bindE (ensure_display_open s) (\<lambda>_.
       if \<not> debug s then read_phase_registers s else Inr s)))"

definition toggle_open_opening :: "slm_piece \<Rightarrow> error + slm_piece" where
  \<comment> \<open>Toggle Open on a closed SLM: open it, select DVI mode, read the registers\<close>
  "toggle_open_opening s =
     (if \<not> debug s then
        (if \<not> device_ok s then Inl SlmError
         else bindE (read_phase_registers s) (\<lambda>s'. Inr (s'\<lparr>slm_open := True\<rparr>)))
      else Inr s)"

definition set_tuning :: "slm_piece \<Rightarrow> error + slm_piece" where
  \<comment> \<open>\<^verbatim>\<open>phase = int(self.params['Phase'].value * 100)\<close>, then the write\<close>
  "set_tuning s =
     bindE (ensure_slm_open s) (\<lambda>_.
     bindE (ensure_slm_ready s) (\<lambda>_.
     bindE (ensure_display_open s) (\<lambda>_.
       if \<not> debug s then
         bindE (py_int (b64_mul (Phase s) (b64_of_int 100))) (\<lambda>phase.
           if \<not> device_ok s then Inl SlmError
           else Inr (s\<lparr>reg_wavelength := word_of_int (Wavelength s),
                       reg_phase := word_of_int phase\<rparr>))
       else Inr s)))"

definition phase_of_hundredths :: "nat \<Rightarrow> b64" where
  \<comment> \<open>the float of the decimal \<open>k / 100\<close>, as the spin box holds it\<close>
  "phase_of_hundredths k = b64_of_ratio (int k) 100"

section \<open>Concrete inputs\<close>

text \<open>
  Datasets, file systems, solvers and a device state on which the theorems below are run.
\<close>

definition ok_solver :: solver where
  "ok_solver c = Inr (replicate (model_arity (fc_model c)) 1, [])"

definition other_cov_solver :: solver where
  \<comment> \<open>the parameters of \<open>ok_solver\<close> with another covariance\<close>
  "other_cov_solver c = Inr (replicate (model_arity (fc_model c)) 1, [[1]])"

definition only_first_file :: "nat \<Rightarrow> error + dataset" where
  "only_first_file i = (if i = 0 then Inr [(0, 2), (100, 1)] else Inl OSError)"

definition every_file :: "nat \<Rightarrow> error + dataset" where
  "every_file i = Inr [(0, 2), (100, 1)]"

definition flat_file :: "nat \<Rightarrow> error + dataset" where
  "flat_file i = Inr [(0, 1), (1, 1)]"

definition one_row_file :: "nat \<Rightarrow> error + dataset" where
  "one_row_file i = Inr [(5, 7)]"

definition negative_file :: "nat \<Rightarrow> error + dataset" where
  "negative_file i = Inr [(0, 2), (100, - 1)]"

definition raising_solver :: solver where
  "raising_solver c = Inl ValueError"

definition example_popt :: "real list" where
  "example_popt = [300, 50, 2, 5, 4, 6]"

definition example_cov :: "real list list" where
  "example_cov =
     [[0, 0, 0, 0, 0, 0],
      [0, 0, 0, 0, 0, 0],
      [0, 0, 1, 0, 0, 0],
      [0, 0, 0, 0, 0, 0],
      [0, 0, 0, 0, 3, 0],
      [0, 0, 0, 0, 0, 3]]"

definition cascade_solver :: solver where
  \<comment> \<open>a solver that succeeds at every stage and ends with \<open>example_popt\<close> and \<open>example_cov\<close>\<close>
  "cascade_solver c =
     (case fc_model c of
        Linear \<Rightarrow> Inr ([0, 1, 1, 1], [])
      | FirstOrder \<Rightarrow> Inr ([0, 1, 1, 1, 0], [])
      | SecondOrder \<Rightarrow> Inr (example_popt, example_cov))"

definition tuned_piece :: slm_piece where
  "tuned_piece =
     \<lparr> debug = False, slm_open = True, display_open = True, device_ok = True,
       Wavelength = 575, Phase = phase_of_hundredths 29,
       reg_wavelength = 0, reg_phase = 0 \<rparr>"

section \<open>The model library agrees with its reference definitions\<close>

lemma length4: "length p = 4 \<longleftrightarrow> (\<exists>a b c d. p = [a, b, c, d])"
  by (auto simp: length_Suc_conv numeral_eq_Suc)
lemma length5: "length p = 5 \<longleftrightarrow> (\<exists>a b c d e. p = [a, b, c, d, e])"
  by (auto simp: length_Suc_conv numeral_eq_Suc)
lemma length6: "length p = 6 \<longleftrightarrow> (\<exists>a b c d e f. p = [a, b, c, d, e, f])"
  by (auto simp: length_Suc_conv numeral_eq_Suc)

lemma star_call_Linear:
  "star_call Linear x p = (case spec_model Linear x p of None \<Rightarrow> Inl TypeError | Some y \<Rightarrow> Inr y)"
proof (cases "length p = 4")
  case True
  then obtain x0 a b c where "p = [x0, a, b, c]" by (auto simp: length4)
  then show ?thesis by (simp add: linear_cos_square_def)
next
  case False
  then have "star_call Linear x p = Inl TypeError"
    by (cases "(Linear, x, p)" rule: star_call.cases) auto
  with False show ?thesis by simp
qed

lemma star_call_FirstOrder:
  "star_call FirstOrder x p = (case spec_model FirstOrder x p of None \<Rightarrow> Inl TypeError | Some y \<Rightarrow> Inr y)"
proof (cases "length p = 5")
  case True
  then obtain x0 a b c d where "p = [x0, a, b, c, d]" by (auto simp: length5)
  then show ?thesis by (simp add: nonlinear1_cos_square_def)
next
  case False
  then have "star_call FirstOrder x p = Inl TypeError"
    by (cases "(FirstOrder, x, p)" rule: star_call.cases) auto
  with False show ?thesis by simp
qed

lemma star_call_SecondOrder:
  "star_call SecondOrder x p = (case spec_model SecondOrder x p of None \<Rightarrow> Inl TypeError | Some y \<Rightarrow> Inr y)"
proof (cases "length p = 6")
  case True
  then obtain x0 a b c d e where "p = [x0, a, b, c, d, e]" by (auto simp: length6)
  then show ?thesis by (simp add: nonlinear2_cos_square_def)
next
  case False
  then have "star_call SecondOrder x p = Inl TypeError"
    by (cases "(SecondOrder, x, p)" rule: star_call.cases) auto
  with False show ?thesis by simp
qed

lemma spec_model_arity: "(spec_model m x p \<noteq> None) = (length p = model_arity m)"
  by (cases m) (simp_all add: model_arity_def)

text \<open>
  Claim C1. The three model functions are the reference definitions of the specification: for
  every real greyscale and all real parameters, applying a model to a parameter vector gives the
  value of the reference definition, the parameter vectors have the lengths 4, 5 and 6 (with any
  other length the call raises TypeError), and the three functions compute
  \<open>a cos\<^sup>2(b(x - x0)) + c\<close>, \<open>a cos\<^sup>2(d(x - x0)\<^sup>2 + b(x - x0)) + c\<close> and
  \<open>a cos\<^sup>2(e(x - x0)\<^sup>3 + d(x - x0)\<^sup>2 + b(x - x0)) + c\<close>.
\<close>

theorem model_library_matches_spec:
  "star_call m x p = (case spec_model m x p of None \<Rightarrow> Inl TypeError | Some y \<Rightarrow> Inr y)
   \<and> (spec_model m x p \<noteq> None) = (length p = model_arity m)
   \<and> model_arity Linear = 4 \<and> model_arity FirstOrder = 5 \<and> model_arity SecondOrder = 6
   \<and> linear_cos_square x x0 a b c = a * (cos (b * (x - x0)))\<^sup>2 + c
   \<and> nonlinear1_cos_square x x0 a b c d = a * (cos (d * (x - x0)\<^sup>2 + b * (x - x0)))\<^sup>2 + c
   \<and> nonlinear2_cos_square x x0 a b c d e =
       a * (cos (e * (x - x0) ^ 3 + d * (x - x0)\<^sup>2 + b * (x - x0)))\<^sup>2 + c"
proof -
  have "star_call m x p = (case spec_model m x p of None \<Rightarrow> Inl TypeError | Some y \<Rightarrow> Inr y)"
    by (cases m) (simp_all only: star_call_Linear star_call_FirstOrder star_call_SecondOrder)
  moreover have "(spec_model m x p \<noteq> None) = (length p = model_arity m)"
    by (rule spec_model_arity)
  moreover have "model_arity Linear = 4 \<and> model_arity FirstOrder = 5 \<and> model_arity SecondOrder = 6"
    by (simp add: model_arity_def)
  moreover have "linear_cos_square x x0 a b c = a * (cos (b * (x - x0)))\<^sup>2 + c"
    by (simp add: linear_cos_square_def)
  moreover have "nonlinear1_cos_square x x0 a b c d = a * (cos (d * (x - x0)\<^sup>2 + b * (x - x0)))\<^sup>2 + c"
    by (simp add: nonlinear1_cos_square_def)
  moreover have "nonlinear2_cos_square x x0 a b c d e =
       a * (cos (e * (x - x0) ^ 3 + d * (x - x0)\<^sup>2 + b * (x - x0)))\<^sup>2 + c"
    by (simp add: nonlinear2_cos_square_def)
  ultimately show ?thesis by blast
qed

section \<open>Stage 0: what the construction returns\<close>

lemma argmax_from_inv:
  assumes "best < length pre" "pre ! best = bv" "\<forall>j<length pre. pre ! j \<le> bv"
    "\<forall>j<best. pre ! j < bv"
  shows "argmax_from ys (length pre) best bv < length (pre @ ys)
     \<and> (\<forall>j<length (pre @ ys). (pre @ ys) ! j \<le> (pre @ ys) ! argmax_from ys (length pre) best bv)
     \<and> (\<forall>j<argmax_from ys (length pre) best bv.
           (pre @ ys) ! j < (pre @ ys) ! argmax_from ys (length pre) best bv)"
  using assms
proof (induction ys arbitrary: pre best bv)
  case Nil
  then show ?case by simp
next
  case (Cons y ys)
  show ?case
  proof (cases "bv < y")
    case True
    have a: "length pre < length (pre @ [y])" by simp
    have b: "(pre @ [y]) ! length pre = y" by simp
    have c: "\<forall>j<length (pre @ [y]). (pre @ [y]) ! j \<le> y"
      using Cons.prems(3) True by (auto simp: nth_append less_Suc_eq)
    have d: "\<forall>j<length pre. (pre @ [y]) ! j < y"
      using Cons.prems(3) True by (auto simp: nth_append intro: le_less_trans)
    from Cons.IH[OF a b c d] True show ?thesis by simp
  next
    case False
    have a: "best < length (pre @ [y])" using Cons.prems(1) by simp
    have b: "(pre @ [y]) ! best = bv" using Cons.prems(1,2) by (simp add: nth_append)
    have c: "\<forall>j<length (pre @ [y]). (pre @ [y]) ! j \<le> bv"
      using Cons.prems(3) False by (auto simp: nth_append less_Suc_eq)
    have d: "\<forall>j<best. (pre @ [y]) ! j < bv"
      using Cons.prems(1,4) by (auto simp: nth_append)
    from Cons.IH[OF a b c d] False show ?thesis by simp
  qed
qed

lemma argmin_from_inv:
  assumes "best < length pre" "pre ! best = bv" "\<forall>j<length pre. bv \<le> pre ! j"
    "\<forall>j<best. bv < pre ! j"
  shows "argmin_from ys (length pre) best bv < length (pre @ ys)
     \<and> (\<forall>j<length (pre @ ys). (pre @ ys) ! argmin_from ys (length pre) best bv \<le> (pre @ ys) ! j)
     \<and> (\<forall>j<argmin_from ys (length pre) best bv.
           (pre @ ys) ! argmin_from ys (length pre) best bv < (pre @ ys) ! j)"
  using assms
proof (induction ys arbitrary: pre best bv)
  case Nil
  then show ?case by simp
next
  case (Cons y ys)
  show ?case
  proof (cases "y < bv")
    case True
    have a: "length pre < length (pre @ [y])" by simp
    have b: "(pre @ [y]) ! length pre = y" by simp
    have c: "\<forall>j<length (pre @ [y]). y \<le> (pre @ [y]) ! j"
      using Cons.prems(3) True by (auto simp: nth_append less_Suc_eq)
    have d: "\<forall>j<length pre. y < (pre @ [y]) ! j"
      using Cons.prems(3) True by (auto simp: nth_append intro: less_le_trans)
    from Cons.IH[OF a b c d] True show ?thesis by simp
  next
    case False
    have a: "best < length (pre @ [y])" using Cons.prems(1) by simp
    have b: "(pre @ [y]) ! best = bv" using Cons.prems(1,2) by (simp add: nth_append)
    have c: "\<forall>j<length (pre @ [y]). bv \<le> (pre @ [y]) ! j"
      using Cons.prems(3) False by (auto simp: nth_append less_Suc_eq)
    have d: "\<forall>j<best. bv < (pre @ [y]) ! j"
      using Cons.prems(1,4) by (auto simp: nth_append)
    from Cons.IH[OF a b c d] False show ?thesis by simp
  qed
qed

lemma first_index_takeWhile:
  assumes "r < length xs" "xs ! r = v" "\<forall>j<r. xs ! j \<noteq> v"
  shows "length (takeWhile (\<lambda>y. y \<noteq> v) xs) = r"
proof -
  have "takeWhile (\<lambda>y. y \<noteq> v) xs = take r xs"
    using assms by (intro takeWhile_eq_take_P_nth) auto
  then show ?thesis using assms(1) by simp
qed

lemma np_argmax_spec:
  assumes "xs \<noteq> []"
  shows "np_argmax xs = Inr (spec_argmax xs) \<and> spec_argmax xs < length xs"
proof -
  obtain y ys where xs: "xs = y # ys" using assms by (cases xs) auto
  let ?r = "argmax_from ys (length [y]) 0 y"
  have inv: "?r < length ([y] @ ys)
     \<and> (\<forall>j<length ([y] @ ys). ([y] @ ys) ! j \<le> ([y] @ ys) ! ?r)
     \<and> (\<forall>j<?r. ([y] @ ys) ! j < ([y] @ ys) ! ?r)"
    by (rule argmax_from_inv) auto
  then have r: "?r < length xs" and le: "\<forall>j<length xs. xs ! j \<le> xs ! ?r"
    and lt: "\<forall>j<?r. xs ! j < xs ! ?r"
    by (simp_all add: xs)
  have "Max (set xs) = xs ! ?r"
  proof (rule Max_eqI)
    show "finite (set xs)" by simp
    show "\<And>z. z \<in> set xs \<Longrightarrow> z \<le> xs ! ?r" using le by (auto simp: in_set_conv_nth)
    show "xs ! ?r \<in> set xs" using r by simp
  qed
  then have "spec_argmax xs = ?r"
    unfolding spec_argmax_def using r lt by (intro first_index_takeWhile) auto
  then show ?thesis using r by (simp add: xs)
qed

lemma np_argmin_spec:
  assumes "xs \<noteq> []"
  shows "np_argmin xs = Inr (spec_argmin xs) \<and> spec_argmin xs < length xs"
proof -
  obtain y ys where xs: "xs = y # ys" using assms by (cases xs) auto
  let ?r = "argmin_from ys (length [y]) 0 y"
  have inv: "?r < length ([y] @ ys)
     \<and> (\<forall>j<length ([y] @ ys). ([y] @ ys) ! ?r \<le> ([y] @ ys) ! j)
     \<and> (\<forall>j<?r. ([y] @ ys) ! ?r < ([y] @ ys) ! j)"
    by (rule argmin_from_inv) auto
  then have r: "?r < length xs" and le: "\<forall>j<length xs. xs ! ?r \<le> xs ! j"
    and lt: "\<forall>j<?r. xs ! ?r < xs ! j"
    by (simp_all add: xs)
  have "Min (set xs) = xs ! ?r"
  proof (rule Min_eqI)
    show "finite (set xs)" by simp
    show "\<And>z. z \<in> set xs \<Longrightarrow> xs ! ?r \<le> z" using le by (auto simp: in_set_conv_nth)
    show "xs ! ?r \<in> set xs" using r by simp
  qed
  then have "spec_argmin xs = ?r"
    unfolding spec_argmin_def using r lt by (intro first_index_takeWhile) auto
  then show ?thesis using r by (simp add: xs)
qed

lemma np_max_spec: "xs \<noteq> [] \<Longrightarrow> np_max xs = Inr (Max (set xs))"
  by (cases xs) (simp_all add: Max.set_eq_fold[symmetric])

lemma np_min_spec: "xs \<noteq> [] \<Longrightarrow> np_min xs = Inr (Min (set xs))"
  by (cases xs) (simp_all add: Min.set_eq_fold[symmetric])

lemma loadtxt_unpack_rows:
  assumes "2 \<le> length d"
  shows "loadtxt_unpack d = Inr (Array (grey_of d), Array (intensity_of d))"
proof -
  obtain r1 r2 rs where "d = r1 # r2 # rs"
    using assms by (cases d; cases "tl d") auto
  then show ?thesis by simp
qed

lemma stage0_guess_explicit:
  assumes "d \<noteq> []"
  shows "stage0_guess (Array (grey_of d)) (Array (intensity_of d)) =
    (let pk = grey_of d ! spec_argmax (take 30 (intensity_of d));
         mn = grey_of d ! spec_argmin (intensity_of d);
         A = Max (set (intensity_of d)); F = Min (set (intensity_of d));
         fq = np_div pi (2 * \<bar>pk - mn\<bar>)
     in Inr \<lparr> p_guess = [Fin pk, Fin A, fq, Fin F],
              lower = [Fin (pk - 50), Fin (A - 10 * F), Fin (pi / 1023), Fin 0],
              upper = [Fin (pk + 50), Fin (A + 10 * F), xminus (xscale 2 fq) (pi / 1023),
                       Fin (10 * F)] \<rparr>)"
proof -
  have ne: "intensity_of d \<noteq> []" "take 30 (intensity_of d) \<noteq> []"
    using assms by (auto simp: intensity_of_def)
  have len: "length (grey_of d) = length (intensity_of d)"
    by (simp add: grey_of_def intensity_of_def)
  have i1: "spec_argmax (take 30 (intensity_of d)) < length (grey_of d)"
    using np_argmax_spec[OF ne(2)] len by simp
  have i2: "spec_argmin (intensity_of d) < length (grey_of d)"
    using np_argmin_spec[OF ne(1)] len by simp
  show ?thesis
    unfolding stage0_guess_def
    using np_argmax_spec[OF ne(2)] np_argmin_spec[OF ne(1)] np_max_spec[OF ne(1)]
      np_min_spec[OF ne(1)] i1 i2
    by (simp add: bindE_def np_index_def Let_def)
qed

lemma stage0_from_rows_explicit:
  assumes "2 \<le> length d"
  shows "stage0_from_rows d =
    (let pk = grey_of d ! spec_argmax (take 30 (intensity_of d));
         mn = grey_of d ! spec_argmin (intensity_of d);
         A = Max (set (intensity_of d)); F = Min (set (intensity_of d));
         fq = np_div pi (2 * \<bar>pk - mn\<bar>)
     in Inr \<lparr> p_guess = [Fin pk, Fin A, fq, Fin F],
              lower = [Fin (pk - 50), Fin (A - 10 * F), Fin (pi / 1023), Fin 0],
              upper = [Fin (pk + 50), Fin (A + 10 * F), xminus (xscale 2 fq) (pi / 1023),
                       Fin (10 * F)] \<rparr>)"
proof -
  have ne: "d \<noteq> []" using assms by auto
  show ?thesis
    unfolding stage0_from_rows_def loadtxt_unpack_rows[OF assms]
    by (simp add: bindE_def stage0_guess_explicit[OF ne])
qed

lemma stage0_one_row: "stage0_from_rows [(g, y)] = Inl IndexError"
  by (simp add: stage0_from_rows_def stage0_guess_def bindE_def)

lemma stage0_three: "stage0_from_rows [(0, 1), (100, 3), (200, 2)] =
   Inr \<lparr> p_guess = [Fin 100, Fin 3, Fin (pi / 200), Fin 1],
         lower = [Fin 50, Fin (- 7), Fin (pi / 1023), Fin 0],
         upper = [Fin 150, Fin 13, Fin (pi / 100 - pi / 1023), Fin 10] \<rparr>"
  by (simp add: stage0_from_rows_def grey_of_def intensity_of_def stage0_guess_def bindE_def
      np_index_def np_div_def Let_def)

text \<open>
  Claim C2 says that the stage-0 construction produces its guesses and bounds for every
  non-empty dataset. It fails for a dataset of one sample: the file is unpacked into two scalars,
  the slice \<^verbatim>\<open>intensity[:30]\<close> raises IndexError, and the script stops before any fit.
\<close>

theorem stage0_one_row_counterexample:
  "[(5, 7 :: real)] \<noteq> []
   \<and> stage0_from_rows [(5, 7)] = Inl IndexError
   \<and> raised (calibrate ok_solver one_row_file) = Some IndexError
   \<and> fit_calls (calibrate ok_solver one_row_file) = []"
  by (simp add: stage0_one_row calibrate_def loop_body_def one_row_file_def initial_state_def
      stage0_guess_def bindE_def)

text \<open>
  Claim C2, amended. For every dataset of at least two samples the stage-0 construction returns:
  the phase-offset guess, the greyscale at the index of the maximum intensity among the first 30
  samples, bounded by guess \<open>\<plusminus>\<close> 50; the amplitude guess, the maximum intensity of the whole
  dataset, bounded by guess \<open>\<plusminus>\<close> 10 times the floor guess; the frequency guess
  \<open>\<pi> / (2 |g\<^sub>p\<^sub>e\<^sub>a\<^sub>k - g\<^sub>m\<^sub>i\<^sub>n|)\<close>, bounded by \<open>\<pi> / 1023\<close> and \<open>2 guess - \<pi> / 1023\<close>, where \<open>g\<^sub>p\<^sub>e\<^sub>a\<^sub>k\<close> is
  the phase-offset guess and \<open>g\<^sub>m\<^sub>i\<^sub>n\<close> the greyscale at the index of the minimum intensity of the
  whole dataset; and the floor guess, the minimum intensity, bounded by 0 and 10 times the guess.
  Where the two greyscales coincide the quotient is numpy's \<open>+inf\<close>.
\<close>

theorem stage0_guess_bounds_two_rows:
  assumes "2 \<le> length d"
  shows "stage0_from_rows d =
    (let pk = grey_of d ! spec_argmax (take 30 (intensity_of d));
         mn = grey_of d ! spec_argmin (intensity_of d);
         A = Max (set (intensity_of d)); F = Min (set (intensity_of d))
     in Inr \<lparr> p_guess = [Fin pk, Fin A,
                         (if pk = mn then PInf else Fin (pi / (2 * \<bar>pk - mn\<bar>))), Fin F],
              lower = [Fin (pk - 50), Fin (A - 10 * F), Fin (pi / 1023), Fin 0],
              upper = [Fin (pk + 50), Fin (A + 10 * F),
                       (if pk = mn then PInf
                        else Fin (2 * (pi / (2 * \<bar>pk - mn\<bar>)) - pi / 1023)),
                       Fin (10 * F)] \<rparr>)"
  unfolding stage0_from_rows_explicit[OF assms]
  by (simp add: Let_def np_div_def)

theorem stage0_guess_bounds_two_rows_witness:
  "2 \<le> length [(0, 1), (100, 3), (200, 2 :: real)]
   \<and> stage0_from_rows [(0, 1), (100, 3), (200, 2)] =
       Inr \<lparr> p_guess = [Fin 100, Fin 3, Fin (pi / 200), Fin 1],
             lower = [Fin 50, Fin (- 7), Fin (pi / 1023), Fin 0],
             upper = [Fin 150, Fin 13, Fin (pi / 100 - pi / 1023), Fin 10] \<rparr>"
  using stage0_guess_bounds_two_rows[of "[(0, 1), (100, 3), (200, 2)]"]
  by (simp add: grey_of_def intensity_of_def spec_argmax_def spec_argmin_def Let_def)

text \<open>
  Claim C8 says that for non-negative intensities the stage-0 box always satisfies lower \<open>\<le>\<close>
  guess \<open>\<le>\<close> upper, a violation being a failure of the construction. It fails for the two
  samples \<open>(0, 2)\<close> and \<open>(1000, 1)\<close>: peak and minimum are 1000 greyscales apart, the frequency
  guess \<open>\<pi> / 2000\<close> is below its lower bound \<open>\<pi> / 1023\<close>, and the construction returns normally.
\<close>

theorem stage0_bounds_counterexample:
  "list_all (\<lambda>y. 0 \<le> y) (intensity_of [(0, 2), (1000, 1)])
   \<and> \<not> (case stage0_from_rows [(0, 2), (1000, 1)] of
          Inl e \<Rightarrow> True | Inr gb \<Rightarrow> bounds_ok gb)"
  by (simp add: stage0_from_rows_def grey_of_def intensity_of_def stage0_guess_def bindE_def
      np_index_def np_div_def bounds_ok_def Let_def)

text \<open>
  Claim C8, amended. For every dataset of at least two samples with non-negative intensities
  the stage-0 construction returns a guess and bounds, without a check, a failure or a clamp. In
  what it returns, the phase-offset, amplitude and intensity-floor entries satisfy lower \<open>\<le>\<close>
  guess \<open>\<le>\<close> upper. The frequency entry satisfies it, and with it the whole box, exactly when
  the greyscale at the maximum intensity among the first 30 samples and the greyscale at the
  minimum intensity of the whole dataset are at most 1023 / 2 apart.
\<close>

theorem stage0_bounds_entries:
  assumes "2 \<le> length d" and "\<forall>y\<in>set (intensity_of d). 0 \<le> y"
  shows "\<exists>gb. stage0_from_rows d = Inr gb
     \<and> entry_ok gb 0 \<and> entry_ok gb 1 \<and> entry_ok gb 3
     \<and> (entry_ok gb 2 \<longleftrightarrow>
          2 * \<bar>grey_of d ! spec_argmax (take 30 (intensity_of d))
                - grey_of d ! spec_argmin (intensity_of d)\<bar> \<le> 1023)
     \<and> (bounds_ok gb \<longleftrightarrow>
          2 * \<bar>grey_of d ! spec_argmax (take 30 (intensity_of d))
                - grey_of d ! spec_argmin (intensity_of d)\<bar> \<le> 1023)"
proof -
  let ?pk = "grey_of d ! spec_argmax (take 30 (intensity_of d))"
  let ?mn = "grey_of d ! spec_argmin (intensity_of d)"
  let ?A = "Max (set (intensity_of d))"
  let ?F = "Min (set (intensity_of d))"
  have ne: "intensity_of d \<noteq> []" using assms(1) by (auto simp: intensity_of_def)
  then have "?F \<in> set (intensity_of d)" by (intro Min_in) auto
  then have F: "0 \<le> ?F" using assms(2) by blast
  have fq: "pi / 1023 \<le> pi / (2 * \<bar>?pk - ?mn\<bar>) \<longleftrightarrow> 2 * \<bar>?pk - ?mn\<bar> \<le> 1023"
    if "?pk \<noteq> ?mn"
  proof -
    from that have pos: "0 < 2 * \<bar>?pk - ?mn\<bar>" by simp
    have "pi / 1023 \<le> pi / (2 * \<bar>?pk - ?mn\<bar>) \<longleftrightarrow> pi * (2 * \<bar>?pk - ?mn\<bar>) \<le> pi * 1023"
      using pos by (simp add: field_simps)
    also have "\<dots> \<longleftrightarrow> 2 * \<bar>?pk - ?mn\<bar> \<le> 1023"
      using pi_gt_zero by (simp only: mult_le_cancel_left_pos)
    finally show ?thesis .
  qed
  show ?thesis
    unfolding stage0_from_rows_explicit[OF assms(1)]
    using F fq by (auto simp: Let_def bounds_ok_def entry_ok_def np_div_def)
qed

theorem stage0_bounds_entries_witness:
  "2 \<le> length [(0, 1), (100, 3), (200, 2 :: real)]
   \<and> list_all (\<lambda>y. 0 \<le> y) [1, 3, 2 :: real]
   \<and> (\<exists>gb. stage0_from_rows [(0, 1), (100, 3), (200, 2)] = Inr gb \<and> bounds_ok gb)"
  using stage0_bounds_entries[of "[(0, 1), (100, 3), (200, 2)]"]
  by (auto simp: grey_of_def intensity_of_def spec_argmax_def spec_argmin_def)

section \<open>The script: which fits it runs\<close>

lemma calibrate_unfold:
  "calibrate curve_fit loadtxt = loop_body curve_fit loadtxt 0 initial_state"
  by (simp add: calibrate_def initial_state_def)

lemma fit_calls_loop_body:
  "fit_calls (loop_body curve_fit loadtxt i s) =
     (case loadtxt i of
        Inl e \<Rightarrow> fit_calls s
      | Inr d \<Rightarrow>
          (case loadtxt_unpack d of
             Inl e \<Rightarrow> fit_calls s
           | Inr (grey, intensity) \<Rightarrow>
               (case stage0_guess grey intensity of
                  Inl e \<Rightarrow> fit_calls s
                | Inr gb \<Rightarrow> fit_calls s @ [fit_args Linear grey intensity gb])))"
  by (simp add: loop_body_def Let_def split: sum.splits prod.splits)

lemma fit_calls_calibrate:
  "fit_calls (calibrate curve_fit loadtxt) =
     (case loadtxt 0 of
        Inl e \<Rightarrow> []
      | Inr d \<Rightarrow>
          (case loadtxt_unpack d of
             Inl e \<Rightarrow> []
           | Inr (grey, intensity) \<Rightarrow>
               (case stage0_guess grey intensity of
                  Inl e \<Rightarrow> []
                | Inr gb \<Rightarrow> [fit_args Linear grey intensity gb])))"
  by (simp add: calibrate_unfold fit_calls_loop_body initial_state_def split: sum.splits)

lemma take1_cascade:
  "take (Suc 0) (spec_cascade_calls curve_fit d) =
     (case loadtxt_unpack d of
        Inl e \<Rightarrow> []
      | Inr (grey, intensity) \<Rightarrow>
          (case stage0_guess grey intensity of
             Inl e \<Rightarrow> []
           | Inr gb \<Rightarrow> [fit_args Linear grey intensity gb]))"
  by (simp add: spec_cascade_calls_def Let_def split: sum.splits prod.splits)

lemma result_arrays_loop_body:
  "nonlinearity1 (loop_body curve_fit loadtxt i s) = nonlinearity1 s
   \<and> nonlinearity2 (loop_body curve_fit loadtxt i s) = nonlinearity2 s
   \<and> err (loop_body curve_fit loadtxt i s) = err s"
  by (simp add: loop_body_def Let_def split: sum.splits prod.splits)

lemma loop_body_after_guess:
  assumes "loadtxt i = Inr d" and "loadtxt_unpack d = Inr (grey, intensity)"
    and "stage0_guess grey intensity = Inr gb"
  shows "(case curve_fit (fit_args Linear grey intensity gb) of
            Inl e \<Rightarrow> raised (loop_body curve_fit loadtxt i s) = Some e
                     \<and> printed (loop_body curve_fit loadtxt i s) = printed s
          | Inr (p, cov) \<Rightarrow> printed (loop_body curve_fit loadtxt i s) = printed s @ [p])"
  using assms by (simp add: loop_body_def Let_def split: sum.splits prod.splits)

text \<open>
  A negative intensity gives a negative error bar: the fit is made and its parameters printed,
  then \<^verbatim>\<open>errorbar\<close> raises and neither the points nor the fitted curve are drawn.
\<close>

lemma negative_intensity_errorbar:
  "length (fit_calls (calibrate ok_solver negative_file)) = 1
   \<and> printed (calibrate ok_solver negative_file) = [[1, 1, 1, 1]]
   \<and> raised (calibrate ok_solver negative_file) = Some ValueError
   \<and> errorbars (calibrate ok_solver negative_file) = []
   \<and> plotted (calibrate ok_solver negative_file) = []"
  by (simp add: calibrate_unfold loop_body_def negative_file_def grey_of_def intensity_of_def
      stage0_guess_def bindE_def np_index_def np_div_def ok_solver_def model_arity_def
      fit_args_def initial_state_def plt_errorbar_def REL_Y_ERR_def numeral_eq_Suc Let_def)

text \<open>
  Claim C3, amended. The script processes the first supplied dataset only and runs stage 0 only:
  its fit calls are the first call of the cascade for that dataset (the stage-0 guess and bounds
  built from the raw dataset, fitted with the linear model), every call fits the linear model,
  and nothing the script does depends on any other wavelength's file.
\<close>

theorem calibrate_first_dataset_stage0_only:
  assumes "loadtxt 0 = loadtxt' 0"
  shows "calibrate curve_fit loadtxt = calibrate curve_fit loadtxt'
     \<and> fit_calls (calibrate curve_fit loadtxt) =
         (case loadtxt 0 of Inl e \<Rightarrow> [] | Inr d \<Rightarrow> take 1 (spec_cascade_calls curve_fit d))
     \<and> list_all (\<lambda>c. fc_model c = Linear) (fit_calls (calibrate curve_fit loadtxt))"
proof -
  have a: "calibrate curve_fit loadtxt = calibrate curve_fit loadtxt'"
    using assms by (simp add: calibrate_unfold loop_body_def)
  have b: "fit_calls (calibrate curve_fit loadtxt) =
         (case loadtxt 0 of Inl e \<Rightarrow> [] | Inr d \<Rightarrow> take 1 (spec_cascade_calls curve_fit d))"
    by (simp add: fit_calls_calibrate take1_cascade split: sum.splits)
  have c: "list_all (\<lambda>c. fc_model c = Linear) (fit_calls (calibrate curve_fit loadtxt))"
    by (simp add: fit_calls_calibrate fit_args_def split: sum.splits prod.splits)
  from a b c show ?thesis by blast
qed

lemma stage0_two: "stage0_guess (Array [0, 100]) (Array [2, 1]) =
   Inr \<lparr> p_guess = [Fin 0, Fin 2, Fin (pi / 200), Fin 1],
         lower = [Fin (- 50), Fin (- 8), Fin (pi / 1023), Fin 0],
         upper = [Fin 50, Fin 12, Fin (pi / 100 - pi / 1023), Fin 10] \<rparr>"
  by (simp add: stage0_guess_def bindE_def np_index_def np_div_def Let_def)

text \<open>
  Claim C3 says that every supplied wavelength runs through the three-stage cascade. It fails:
  with the same readable dataset behind every path and a solver that always succeeds, the script
  makes one fit call, where the cascade over the five wavelengths makes fifteen.
\<close>

theorem calibrate_cascade_counterexample:
  "fit_calls (calibrate ok_solver every_file)
     \<noteq> spec_pipeline_calls ok_solver (replicate 5 [(0, 2), (100, 1)])"
proof -
  have "length (fit_calls (calibrate ok_solver every_file)) = 1"
    by (simp add: fit_calls_calibrate every_file_def grey_of_def intensity_of_def stage0_two)
  moreover have "length (spec_cascade_calls ok_solver [(0, 2), (100, 1)]) = 3"
    by (simp add: spec_cascade_calls_def grey_of_def intensity_of_def stage0_two ok_solver_def
        Let_def fit_args_def)
  then have "length (spec_pipeline_calls ok_solver (replicate 5 [(0, 2), (100, 1)])) = 15"
    by (simp add: spec_pipeline_calls_def length_concat numeral_eq_Suc)
  ultimately show ?thesis by auto
qed

theorem calibrate_first_dataset_stage0_only_witness:
  "only_first_file 0 = every_file 0
   \<and> calibrate ok_solver only_first_file = calibrate ok_solver every_file
   \<and> length (fit_calls (calibrate ok_solver only_first_file)) = 1"
proof -
  have h: "only_first_file 0 = every_file 0"
    by (simp add: only_first_file_def every_file_def)
  have len: "length (fit_calls (calibrate ok_solver only_first_file)) = 1"
    by (simp add: fit_calls_calibrate only_first_file_def grey_of_def intensity_of_def stage0_two)
  have "calibrate ok_solver only_first_file = calibrate ok_solver every_file"
    using calibrate_first_dataset_stage0_only[of only_first_file every_file ok_solver] h by blast
  with h len show ?thesis by blast
qed

lemma stage0_flat: "stage0_guess (Array [0, 1]) (Array [1, 1]) =
   Inr \<lparr> p_guess = [Fin 0, Fin 1, PInf, Fin 1],
         lower = [Fin (- 50), Fin (- 9), Fin (pi / 1023), Fin 0],
         upper = [Fin 50, Fin 11, PInf, Fin 10] \<rparr>"
  by (simp add: stage0_guess_def bindE_def np_index_def np_div_def Let_def)

text \<open>
  Claim C7 says that a dataset whose peak and minimum greyscale coincide makes the stage-0
  construction raise, so that the solver is never invoked. It fails for two samples of equal
  intensity: peak and minimum are both at the first sample, the construction returns a guess,
  and the script calls the solver, whose exception is the one the script ends with.
\<close>

theorem degenerate_dataset_counterexample:
  "grey_of [(0, 1), (1, 1)] ! spec_argmax (take 30 (intensity_of [(0, 1), (1, 1)]))
     = grey_of [(0, 1), (1, 1)] ! spec_argmin (intensity_of [(0, 1), (1, 1)])
   \<and> \<not> isl (stage0_from_rows [(0, 1), (1, 1)])
   \<and> length (fit_calls (calibrate raising_solver flat_file)) = 1
   \<and> raised (calibrate raising_solver flat_file) = Some ValueError"
proof -
  have a: "grey_of [(0, 1), (1, 1)] ! spec_argmax (take 30 (intensity_of [(0, 1), (1, 1)]))
     = grey_of [(0, 1), (1, 1)] ! spec_argmin (intensity_of [(0, 1), (1, 1)])"
    by (simp add: grey_of_def intensity_of_def spec_argmax_def spec_argmin_def)
  have b: "\<not> isl (stage0_from_rows [(0, 1), (1, 1)])"
    by (simp add: stage0_from_rows_def bindE_def grey_of_def intensity_of_def stage0_flat)
  have c: "length (fit_calls (calibrate raising_solver flat_file)) = 1"
    by (simp add: fit_calls_calibrate flat_file_def grey_of_def intensity_of_def stage0_flat)
  have d: "raised (calibrate raising_solver flat_file) = Some ValueError"
    by (simp add: calibrate_unfold loop_body_def flat_file_def grey_of_def intensity_of_def
        stage0_flat raising_solver_def Let_def)
  from a b c d show ?thesis by blast
qed

text \<open>
  Claim C7, amended. For every dataset of at least two samples in which the greyscale at the
  maximum intensity among the first 30 samples coincides with the greyscale at the minimum
  intensity of the whole dataset (in particular, when all intensities are equal), the stage-0
  construction raises nothing: the frequency guess and its upper bound are numpy's \<open>+inf\<close>, and
  the script invokes the solver with this guess and these bounds in its one fit call. What the
  solver returns is what the script goes on with: its exception ends the script, its parameters
  are printed.
\<close>

theorem degenerate_dataset_reaches_solver:
  assumes "2 \<le> length d"
    and "grey_of d ! spec_argmax (take 30 (intensity_of d))
           = grey_of d ! spec_argmin (intensity_of d)"
    and "loadtxt 0 = Inr d"
  shows "\<exists>gb. stage0_from_rows d = Inr gb
     \<and> p_guess gb ! 2 = PInf \<and> upper gb ! 2 = PInf
     \<and> fit_calls (calibrate curve_fit loadtxt)
         = [fit_args Linear (Array (grey_of d)) (Array (intensity_of d)) gb]
     \<and> (case curve_fit (fit_args Linear (Array (grey_of d)) (Array (intensity_of d)) gb) of
          Inl e \<Rightarrow> raised (calibrate curve_fit loadtxt) = Some e
                   \<and> printed (calibrate curve_fit loadtxt) = []
        | Inr (p, cov) \<Rightarrow> printed (calibrate curve_fit loadtxt) = [p])"
proof -
  obtain gb where gb: "stage0_from_rows d = Inr gb"
    and inf: "p_guess gb ! 2 = PInf" "upper gb ! 2 = PInf"
    using assms(2) by (simp add: stage0_from_rows_explicit[OF assms(1)] Let_def np_div_def)
  have u: "loadtxt_unpack d = Inr (Array (grey_of d), Array (intensity_of d))"
    using assms(1) by (rule loadtxt_unpack_rows)
  have g: "stage0_guess (Array (grey_of d)) (Array (intensity_of d)) = Inr gb"
    using gb by (simp add: stage0_from_rows_def u bindE_def)
  have calls: "fit_calls (calibrate curve_fit loadtxt)
         = [fit_args Linear (Array (grey_of d)) (Array (intensity_of d)) gb]"
    by (simp add: fit_calls_calibrate assms(3) u g)
  have after: "(case curve_fit (fit_args Linear (Array (grey_of d)) (Array (intensity_of d)) gb) of
          Inl e \<Rightarrow> raised (calibrate curve_fit loadtxt) = Some e
                   \<and> printed (calibrate curve_fit loadtxt) = []
        | Inr (p, cov) \<Rightarrow> printed (calibrate curve_fit loadtxt) = [p])"
    using loop_body_after_guess[of loadtxt 0 d "Array (grey_of d)" "Array (intensity_of d)" gb
        curve_fit initial_state] assms(3) u g
    by (simp add: calibrate_unfold initial_state_def split: sum.splits prod.splits)
  from gb inf calls after show ?thesis by blast
qed

theorem degenerate_dataset_reaches_solver_witness:
  "2 \<le> length [(0, 1), (1, 1 :: real)]
   \<and> flat_file 0 = Inr [(0, 1), (1, 1)]
   \<and> (\<exists>gb. stage0_from_rows [(0, 1), (1, 1)] = Inr gb
        \<and> p_guess gb ! 2 = PInf \<and> upper gb ! 2 = PInf
        \<and> fit_calls (calibrate raising_solver flat_file)
            = [fit_args Linear (Array [0, 1]) (Array [1, 1]) gb]
        \<and> raised (calibrate raising_solver flat_file) = Some ValueError)"
  using degenerate_dataset_reaches_solver[of "[(0, 1), (1, 1)]" flat_file raising_solver]
  by (auto simp: flat_file_def grey_of_def intensity_of_def spec_argmax_def spec_argmin_def
      raising_solver_def)

section \<open>The later stages and the aggregation\<close>

lemma stage0_guess_lengths:
  assumes "stage0_guess grey intensity = Inr gb"
  shows "length (p_guess gb) = 4 \<and> length (lower gb) = 4 \<and> length (upper gb) = 4"
  using assms by (auto simp: stage0_guess_def bindE_def Let_def split: sum.splits)

lemma fit_calls_from_rows:
  "fit_calls (calibrate curve_fit loadtxt) =
     (case loadtxt 0 of
        Inl e \<Rightarrow> []
      | Inr d \<Rightarrow>
          (case stage0_from_rows d of
             Inl e \<Rightarrow> []
           | Inr gb \<Rightarrow>
               [\<lparr> fc_model = Linear, xdata = Array (grey_of d), ydata = Array (intensity_of d),
                  p0 = p_guess gb, sigma = Array (map (\<lambda>y. 12 / 10000 * y) (intensity_of d)),
                  absolute_sigma = True, bounds = (lower gb, upper gb) \<rparr>]))"
proof (cases "loadtxt 0")
  case (Inl e)
  then show ?thesis by (simp add: fit_calls_calibrate)
next
  case (Inr d)
  show ?thesis
  proof (cases d rule: loadtxt_unpack.cases)
    case 1
    then show ?thesis using Inr by (simp add: fit_calls_calibrate stage0_from_rows_def bindE_def)
  next
    case (2 g y)
    then show ?thesis using Inr
      by (simp add: fit_calls_calibrate stage0_from_rows_def bindE_def stage0_guess_def)
  next
    case (3 r1 r2 rs)
    then show ?thesis using Inr
      by (simp add: fit_calls_calibrate stage0_from_rows_def bindE_def fit_args_def REL_Y_ERR_def
          split: sum.splits)
  qed
qed

lemma run_cascade_solver:
  "printed (calibrate cascade_solver every_file) = [[0, 1, 1, 1]]
   \<and> raised (calibrate cascade_solver every_file) = None
   \<and> fit_calls (calibrate cascade_solver every_file) =
       [fit_args Linear (Array [0, 100]) (Array [2, 1])
          \<lparr> p_guess = [Fin 0, Fin 2, Fin (pi / 200), Fin 1],
            lower = [Fin (- 50), Fin (- 8), Fin (pi / 1023), Fin 0],
            upper = [Fin 50, Fin 12, Fin (pi / 100 - pi / 1023), Fin 10] \<rparr>]"
  by (simp add: calibrate_unfold loop_body_def every_file_def grey_of_def intensity_of_def
      stage0_two cascade_solver_def fit_args_def initial_state_def plt_errorbar_def REL_Y_ERR_def
      Let_def)

text \<open>
  Claim C4 says that for every stage after stage 0 the next fit is seeded with the prior fitted
  vector \<open>p\<close>: guess \<open>p\<close> extended with 0, bounds \<open>p - \<epsilon>\<close> and \<open>p + \<epsilon>\<close> extended with \<open>-\<infinity>\<close> and
  \<open>+\<infinity>\<close>. It fails: in a run whose stage-0 fit returns \<open>p = [0, 1, 1, 1]\<close> and that ends without
  an exception, the script makes that one fit call and no other; no call has the guess or the
  bounds built from \<open>p\<close>.
\<close>

theorem next_stage_counterexample:
  "printed (calibrate cascade_solver every_file) = [[0, 1, 1, 1]]
   \<and> raised (calibrate cascade_solver every_file) = None
   \<and> length (fit_calls (calibrate cascade_solver every_file)) = 1
   \<and> \<not> list_ex (\<lambda>c. p0 c = p_guess (spec_next_stage_guess [0, 1, 1, 1]))
         (fit_calls (calibrate cascade_solver every_file))
   \<and> \<not> list_ex (\<lambda>c. bounds c = (lower (spec_next_stage_guess [0, 1, 1, 1]),
                                upper (spec_next_stage_guess [0, 1, 1, 1])))
         (fit_calls (calibrate cascade_solver every_file))"
  by (simp add: run_cascade_solver fit_args_def spec_next_stage_guess_def)

text \<open>
  Claim C4, amended. The script builds no guess and no bounds for any stage after stage 0. Its
  only fit call is the stage-0 fit of the linear model on the first dataset, with the guess and
  the bounds that the stage-0 construction builds from the raw dataset, four entries each. The
  calls it makes are the same whatever the fits return: no fitted parameter vector is extended
  with 0 or boxed by \<open>\<plusminus> \<epsilon>\<close>, and the constant \<open>\<epsilon> = 10\<^sup>-\<^sup>1\<^sup>2\<close> is not used.
\<close>

theorem no_next_stage_construction:
  "fit_calls (calibrate curve_fit loadtxt) =
     (case loadtxt 0 of
        Inl e \<Rightarrow> []
      | Inr d \<Rightarrow>
          (case stage0_from_rows d of
             Inl e \<Rightarrow> []
           | Inr gb \<Rightarrow>
               [\<lparr> fc_model = Linear, xdata = Array (grey_of d), ydata = Array (intensity_of d),
                  p0 = p_guess gb, sigma = Array (map (\<lambda>y. 12 / 10000 * y) (intensity_of d)),
                  absolute_sigma = True, bounds = (lower gb, upper gb) \<rparr>]))
   \<and> fit_calls (calibrate curve_fit loadtxt) = fit_calls (calibrate curve_fit' loadtxt)
   \<and> list_all (\<lambda>c. length (p0 c) = 4 \<and> length (fst (bounds c)) = 4
                  \<and> length (snd (bounds c)) = 4)
       (fit_calls (calibrate curve_fit loadtxt))"
proof -
  have a: "fit_calls (calibrate curve_fit loadtxt) = fit_calls (calibrate curve_fit' loadtxt)"
    by (simp add: fit_calls_calibrate)
  have b: "list_all (\<lambda>c. length (p0 c) = 4 \<and> length (fst (bounds c)) = 4
                  \<and> length (snd (bounds c)) = 4)
       (fit_calls (calibrate curve_fit loadtxt))"
    using stage0_guess_lengths
    by (auto simp: fit_calls_calibrate fit_args_def split: sum.splits prod.splits)
  from fit_calls_from_rows[of curve_fit loadtxt] a b show ?thesis by blast
qed

lemma loop_body_covariance:
  assumes "\<And>c. map_sum id fst (f c) = map_sum id fst (g c)"
  shows "loop_body f loadtxt i s = loop_body g loadtxt i s"
proof -
  have same: "(case f c of Inl e \<Rightarrow> h e | Inr (p, cov) \<Rightarrow> k p)
            = (case g c of Inl e \<Rightarrow> h e | Inr (p, cov) \<Rightarrow> k p)"
    for c and h :: "error \<Rightarrow> script_state" and k
    using assms[of c] by (cases "f c"; cases "g c") auto
  show ?thesis
    unfolding loop_body_def Let_def
    by (simp add: same split: sum.splits prod.splits)
qed

lemma spec_final_fit_cascade_solver:
  "spec_final_fit cascade_solver [(0, 2), (100, 1)] = Some (example_popt, example_cov)"
  by (simp add: spec_final_fit_def spec_cascade_calls_def grey_of_def intensity_of_def
      stage0_two cascade_solver_def fit_args_def Let_def)

text \<open>
  Claim C5 says that for every wavelength that completes the final fit the aggregator computes
  the two nonlinearity ratios and their standard errors from the final parameters and the
  diagonal of the final covariance. It fails: for a dataset and a solver with which the cascade
  completes its final fit, with ratios 2 and 3 and standard errors 2 and 2, the script ends
  without an exception and its entries for that wavelength are still the zeros it started with.
\<close>

theorem aggregation_counterexample:
  "every_file 0 = Inr [(0, 2), (100, 1)]
   \<and> spec_final_fit cascade_solver [(0, 2), (100, 1)] = Some (example_popt, example_cov)
   \<and> spec_nonlinearity example_popt example_cov
       = \<lparr> ratio1 = 2, ratio2 = 3, ratio1_stderr = 2, ratio2_stderr = 2 \<rparr>
   \<and> raised (calibrate cascade_solver every_file) = None
   \<and> nonlinearity1 (calibrate cascade_solver every_file) ! 0 = 0
   \<and> nonlinearity2 (calibrate cascade_solver every_file) ! 0 = 0
   \<and> err (calibrate cascade_solver every_file) ! 0 = [0, 0]"
proof -
  have a: "spec_nonlinearity example_popt example_cov
       = \<lparr> ratio1 = 2, ratio2 = 3, ratio1_stderr = 2, ratio2_stderr = 2 \<rparr>"
    by (simp add: spec_nonlinearity_def example_popt_def example_cov_def)
  have b: "nonlinearity1 (calibrate cascade_solver every_file) ! 0 = 0
   \<and> nonlinearity2 (calibrate cascade_solver every_file) ! 0 = 0
   \<and> err (calibrate cascade_solver every_file) ! 0 = [0, 0]"
    by (simp add: calibrate_unfold result_arrays_loop_body initial_state_def)
  have c: "every_file 0 = Inr [(0, 2), (100, 1)]" by (simp add: every_file_def)
  from a b c spec_final_fit_cascade_solver run_cascade_solver show ?thesis by blast
qed

text \<open>
  Claim C5, amended. The script computes no nonlinearity ratio and no standard error. Whatever
  the datasets are and whatever the fits return, its arrays of first-order and second-order
  nonlinearities are the five zeros, and its array of errors the five rows of two zeros, that it
  allocates before the loop; it runs no second-order fit; and it discards the covariance its one
  fit returns, so that two solvers returning the same parameters with different covariances
  leave it in the same state.
\<close>

theorem no_aggregation:
  assumes "\<And>c. map_sum id fst (curve_fit c) = map_sum id fst (curve_fit' c)"
  shows "nonlinearity1 (calibrate curve_fit loadtxt) = replicate 5 0
     \<and> nonlinearity2 (calibrate curve_fit loadtxt) = replicate 5 0
     \<and> err (calibrate curve_fit loadtxt) = replicate 5 [0, 0]
     \<and> \<not> list_ex (\<lambda>c. fc_model c = SecondOrder) (fit_calls (calibrate curve_fit loadtxt))
     \<and> calibrate curve_fit loadtxt = calibrate curve_fit' loadtxt"
proof -
  have a: "nonlinearity1 (calibrate curve_fit loadtxt) = replicate 5 0
     \<and> nonlinearity2 (calibrate curve_fit loadtxt) = replicate 5 0
     \<and> err (calibrate curve_fit loadtxt) = replicate 5 [0, 0]"
    by (simp add: calibrate_unfold result_arrays_loop_body initial_state_def)
  have b: "\<not> list_ex (\<lambda>c. fc_model c = SecondOrder) (fit_calls (calibrate curve_fit loadtxt))"
    by (simp add: fit_calls_calibrate fit_args_def split: sum.splits prod.splits)
  have c: "calibrate curve_fit loadtxt = calibrate curve_fit' loadtxt"
    unfolding calibrate_unfold using assms by (rule loop_body_covariance)
  from a b c show ?thesis by blast
qed

theorem no_aggregation_witness:
  "(\<forall>c. map_sum id fst (ok_solver c) = map_sum id fst (other_cov_solver c))
   \<and> ok_solver \<noteq> other_cov_solver
   \<and> nonlinearity1 (calibrate ok_solver every_file) = [0, 0, 0, 0, 0]
   \<and> err (calibrate ok_solver every_file) = [[0, 0], [0, 0], [0, 0], [0, 0], [0, 0]]
   \<and> calibrate ok_solver every_file = calibrate other_cov_solver every_file"
proof -
  have h: "map_sum id fst (ok_solver c) = map_sum id fst (other_cov_solver c)" for c
    by (simp add: ok_solver_def other_cov_solver_def)
  have ne: "ok_solver \<noteq> other_cov_solver"
  proof
    assume "ok_solver = other_cov_solver"
    then have "ok_solver (fit_args Linear (Array []) (Array []) \<lparr>p_guess = [], lower = [], upper = []\<rparr>)
             = other_cov_solver (fit_args Linear (Array []) (Array []) \<lparr>p_guess = [], lower = [], upper = []\<rparr>)"
      by simp
    then show False by (simp add: ok_solver_def other_cov_solver_def)
  qed
  have r5: "replicate 5 (0 :: real) = [0, 0, 0, 0, 0]"
    "replicate 5 [0, 0 :: real] = [[0, 0], [0, 0], [0, 0], [0, 0], [0, 0]]"
    by (simp_all add: numeral_eq_Suc)
  from no_aggregation[of ok_solver other_cov_solver every_file, OF h]
  have "nonlinearity1 (calibrate ok_solver every_file) = replicate 5 0"
    and "err (calibrate ok_solver every_file) = replicate 5 [0, 0]"
    and "calibrate ok_solver every_file = calibrate other_cov_solver every_file"
    by blast+
  with h ne show ?thesis unfolding r5 by blast
qed

section \<open>The phase register does not round-trip\<close>

lemma phase29: "phase_of_hundredths 29 = B64 5224175567749775 (- 54)"
  by code_simp

lemma phase28: "phase_of_hundredths 28 = B64 5044031582654956 (- 54)"
  by code_simp

lemma int_phase29: "py_int (b64_mul (B64 5224175567749775 (- 54)) (b64_of_int 100)) = Inr 28"
  by code_simp

lemma read28: "b64_of_ratio 28 100 = B64 5044031582654956 (- 54)"
  by code_simp

lemma set_tuning_29:
  "set_tuning tuned_piece = Inr (tuned_piece\<lparr>reg_wavelength := 575, reg_phase := 28\<rparr>)"
  by (simp add: set_tuning_def tuned_piece_def bindE_def ensure_slm_open_def
      ensure_slm_ready_def ensure_display_open_def phase29 int_phase29)

text \<open>
  Claim C10 says that writing the phase register and reading it back recovers every Phase that is
  a multiple of 0.01. At Phase 0.29 the code does not: the float product \<open>0.29 * 100\<close> is
  \<open>28.999999999999996\<close>, \<^verbatim>\<open>int\<close> truncates it to 28, and both read paths set Phase to 0.28.
\<close>

theorem phase_round_trip_fails_at_0_29:
  "Phase tuned_piece = phase_of_hundredths 29
   \<and> set_tuning tuned_piece = Inr (tuned_piece\<lparr>reg_wavelength := 575, reg_phase := 28\<rparr>)
   \<and> phase_settings (tuned_piece\<lparr>reg_wavelength := 575, reg_phase := 28\<rparr>)
       = Inr (tuned_piece\<lparr>reg_wavelength := 575, reg_phase := 28,
                            Phase := phase_of_hundredths 28\<rparr>)
   \<and> toggle_open_opening (tuned_piece\<lparr>reg_wavelength := 575, reg_phase := 28, slm_open := False\<rparr>)
       = Inr (tuned_piece\<lparr>reg_wavelength := 575, reg_phase := 28,
                            Phase := phase_of_hundredths 28\<rparr>)
   \<and> phase_of_hundredths 28 \<noteq> phase_of_hundredths 29"
proof -
  have a: "Phase tuned_piece = phase_of_hundredths 29" by (simp add: tuned_piece_def)
  have b: "phase_settings (tuned_piece\<lparr>reg_wavelength := 575, reg_phase := 28\<rparr>)
       = Inr (tuned_piece\<lparr>reg_wavelength := 575, reg_phase := 28,
                            Phase := phase_of_hundredths 28\<rparr>)"
    by (simp add: phase_settings_def read_phase_registers_def tuned_piece_def bindE_def
        ensure_slm_open_def ensure_slm_ready_def ensure_display_open_def phase28 read28)
  have c: "toggle_open_opening (tuned_piece\<lparr>reg_wavelength := 575, reg_phase := 28, slm_open := False\<rparr>)
       = Inr (tuned_piece\<lparr>reg_wavelength := 575, reg_phase := 28,
                            Phase := phase_of_hundredths 28\<rparr>)"
    by (simp add: toggle_open_opening_def read_phase_registers_def tuned_piece_def bindE_def
        phase28 read28)
  have d: "phase_of_hundredths 28 \<noteq> phase_of_hundredths 29" by (simp add: phase28 phase29)
  from a set_tuning_29 b c d show ?thesis by blast
qed

end
